theory Spec2Isabelle
  imports Main "HOL-Library.Sublist" "HOL-Library.Char_ord" "HOL-Library.List_Lexorder"
    "HOL-Library.Multiset"
begin

section \<open>Errors and outcomes\<close>

text \<open>
  Go's \<open>error\<close> is one universal interface type; \<open>nil\<close> is \<open>None\<close>.  The constructors
  are the ways in which the error values seen by \<open>Path.Run\<close> are made: the two package
  level values \<open>ErrCmdUsage\<close> and \<open>ErrNoSuchCmd\<close>, \<open>flag.ErrHelp\<close>, the messages
  that the flag package formats when a token is rejected, the message
  \<open>"Required flags not set: %q\n"\<close> with the slice it is formatted from, and any
  other error (\<open>Other\<close>) that a command or a flag value returns.
\<close>

datatype 'e error =
    ErrCmdUsage
  | ErrNoSuchCmd
  | ErrHelp
  | BadFlagSyntax string
  | FlagNotDefined string
  | InvalidBooleanValue string string "'e error"
  | InvalidBooleanFlag string "'e error"
  | FlagNeedsArgument string
  | InvalidValue string string "'e error"
  | RequiredFlagsNotSet "string list"
  | Other 'e

text \<open>A call of caller supplied code either returns or panics (and then nothing returns).\<close>

datatype 'r outcome = Returns 'r | Panics

section \<open>The flag set of package flag\<close>

text \<open>
  \<open>flag.FlagSet\<close> belongs to the Go standard library, which the package imports;
  the definitions follow \<open>Parse\<close>, \<open>parseOne\<close>, \<open>Visit\<close> and \<open>Args\<close> of its source file
  \<open>flag.go\<close>.  A flag is its \<open>Value\<close>:
  whether it is a boolean flag, and \<open>Set\<close>, which stores the parsed text in a variable
  of the command (a part of the state \<open>'w\<close>) and may return an error.  The flag set
  keeps the declared flags (\<open>formal\<close>), the names of the flags that were set
  (\<open>actual\<close>; in Go a map from the name to the same flag as in \<open>formal\<close>) and the
  arguments that remain (\<open>args\<close>).  The values of package flag return an error
  from \<open>Set\<close> and do not panic.  Usage text and messages go to standard error and
  are left out.
\<close>

record ('w, 'e) Flag =
  IsBoolFlag :: bool
  Set_value :: "string \<Rightarrow> 'w \<Rightarrow> 'e error option \<times> 'w"

record ('w, 'e) FlagSet =
  fs_name :: string
  formal :: "string \<rightharpoonup> ('w, 'e) Flag"
  actual :: "string set"
  fs_args :: "string list"

definition NewFlagSet :: "string \<Rightarrow> ('w, 'e) FlagSet" where
  "NewFlagSet name = \<lparr>fs_name = name, formal = Map.empty, actual = {}, fs_args = []\<rparr>"

text \<open>\<open>fs.Var(value, name, usage)\<close> declares a flag; it panics when the name is declared already.\<close>

definition Var ::
  "('w, 'e) Flag \<Rightarrow> string \<Rightarrow> ('w, 'e) FlagSet \<Rightarrow> ('w, 'e) FlagSet outcome" where
  "Var flag name f =
     (if name \<in> dom (formal f) then Panics
      else Returns (f\<lparr>formal := (formal f)(name \<mapsto> flag)\<rparr>))"

text \<open>
  The loop of \<open>parseOne\<close> that looks for the first \<open>=\<close> from index 1 on: the result is
  the name, whether there is a value, and the value.
\<close>

definition split_value :: "string \<Rightarrow> string \<times> bool \<times> string" where
  "split_value name =
     (if CHR ''='' \<in> set (drop 1 name)
      then (take 1 name @ takeWhile (\<lambda>c. c \<noteq> CHR ''='') (drop 1 name), True,
            drop 1 (dropWhile (\<lambda>c. c \<noteq> CHR ''='') (drop 1 name)))
      else (name, False, []))"

text \<open>
  The second half of \<open>parseOne\<close>: the token has been taken off \<open>args\<close>, the flag
  \<open>name\<close> is looked up and set.
\<close>

definition set_flag ::
  "string \<Rightarrow> bool \<Rightarrow> string \<Rightarrow> ('w, 'e) FlagSet \<Rightarrow> 'w \<Rightarrow>
     (bool \<times> 'e error option) \<times> ('w, 'e) FlagSet \<times> 'w" where
  "set_flag name hasValue val f w =
     (case formal f name of
        None \<Rightarrow>
          if name = ''help'' \<or> name = ''h'' then ((False, Some ErrHelp), f, w)
          else ((False, Some (FlagNotDefined name)), f, w)
      | Some flag \<Rightarrow>
          if IsBoolFlag flag then
            (if hasValue then
               (case Set_value flag val w of
                  (Some err, w') \<Rightarrow> ((False, Some (InvalidBooleanValue val name err)), f, w')
                | (None, w') \<Rightarrow> ((True, None), f\<lparr>actual := insert name (actual f)\<rparr>, w'))
             else
               (case Set_value flag ''true'' w of
                  (Some err, w') \<Rightarrow> ((False, Some (InvalidBooleanFlag name err)), f, w')
                | (None, w') \<Rightarrow> ((True, None), f\<lparr>actual := insert name (actual f)\<rparr>, w')))
          else
            (case (if \<not> hasValue \<and> length (fs_args f) > 0
                   then (True, hd (fs_args f), f\<lparr>fs_args := tl (fs_args f)\<rparr>)
                   else (hasValue, val, f)) of
               (hasValue', val', f') \<Rightarrow>
                 if \<not> hasValue' then ((False, Some (FlagNeedsArgument name)), f', w)
                 else
                   (case Set_value flag val' w of
                      (Some err, w') \<Rightarrow> ((False, Some (InvalidValue val' name err)), f', w')
                    | (None, w') \<Rightarrow>
                        ((True, None), f'\<lparr>actual := insert name (actual f')\<rparr>, w'))))"

text \<open>
  \<open>parseOne\<close> returns \<open>(seen, err)\<close>: a flag was parsed, or parsing stops without an
  error (no argument left, an argument that is not a flag, or \<open>--\<close>), or it stops with
  one.
\<close>

definition parseOne ::
  "('w, 'e) FlagSet \<Rightarrow> 'w \<Rightarrow> (bool \<times> 'e error option) \<times> ('w, 'e) FlagSet \<times> 'w" where
  "parseOne f w =
     (case fs_args f of
        [] \<Rightarrow> ((False, None), f, w)
      | s # rest \<Rightarrow>
          if length s = 0 \<or> s ! 0 \<noteq> CHR ''-'' \<or> length s = 1 then ((False, None), f, w)
          else if s ! 1 = CHR ''-'' \<and> length s = 2 then ((False, None), f\<lparr>fs_args := rest\<rparr>, w)
          else
            let numMinuses = (if s ! 1 = CHR ''-'' then 2 else 1 :: nat);
                name = drop numMinuses s
            in if length name = 0 \<or> name ! 0 = CHR ''-'' \<or> name ! 0 = CHR ''=''
               then ((False, Some (BadFlagSyntax s)), f, w)
               else
                 (case split_value name of
                    (name', hasValue, val) \<Rightarrow>
                      set_flag name' hasValue val (f\<lparr>fs_args := rest\<rparr>) w))"

text \<open>
  The loop of \<open>Parse\<close>, for the error handling \<open>ContinueOnError\<close>: it goes on while
  \<open>parseOne\<close> has seen a flag and returns its error otherwise.
\<close>

function parse_loop ::
  "('w, 'e) FlagSet \<Rightarrow> 'w \<Rightarrow> 'e error option \<times> ('w, 'e) FlagSet \<times> 'w" where
  "parse_loop f w =
     (case parseOne f w of
        ((seen, err), f', w') \<Rightarrow> if seen then parse_loop f' w' else (err, f', w'))"
  by pat_completeness auto
termination
proof (relation "measure (\<lambda>(f, w). length (fs_args f))")
  show "wf (measure (\<lambda>(f :: ('w, 'e) FlagSet, w :: 'w). length (fs_args f)))"
    by simp
next
  fix f :: "('w, 'e) FlagSet" and w :: 'w and r f' w' and seen :: bool and err fw
  assume "(r, fw) = parseOne f w" and "(seen, err) = r" and "(f', w') = fw" and seen
  then have one: "parseOne f w = ((True, err), f', w')"
    by simp
  then obtain s rest where args: "fs_args f = s # rest"
    by (cases "fs_args f") (auto simp: parseOne_def)
  obtain name hasValue v where split: "split_value (drop (if s ! 1 = CHR ''-'' then 2 else 1) s) = (name, hasValue, v)"
    by (metis prod.exhaust)
  from one args split have "set_flag name hasValue v (f\<lparr>fs_args := rest\<rparr>) w = ((True, err), f', w')"
    by (simp add: parseOne_def Let_def split: if_splits)
  then have "length (fs_args f') \<le> length rest"
    by (auto simp: set_flag_def split: option.splits if_splits prod.splits)
  with args show "((f', w'), (f, w)) \<in> measure (\<lambda>(f, w). length (fs_args f))"
    by simp
qed

declare parse_loop.simps [simp del]

definition Parse ::
  "('w, 'e) FlagSet \<Rightarrow> string list \<Rightarrow> 'w \<Rightarrow> 'e error option \<times> ('w, 'e) FlagSet \<times> 'w" where
  "Parse f arguments w = parse_loop (f\<lparr>fs_args := arguments\<rparr>) w"

section \<open>Commands, entries and the registry\<close>

text \<open>
  The interface \<open>Cmd\<close>: \<open>Flags\<close> declares the flags of the command on the flag set
  it is given, \<open>Run\<close> runs it.  Both are code of the caller: they act on the caller's
  state \<open>'w\<close> and return or panic.
\<close>

record ('w, 'e) Cmd =
  cmd_Flags :: "('w, 'e) FlagSet \<Rightarrow> 'w \<Rightarrow> ('w, 'e) FlagSet outcome \<times> 'w"
  cmd_Run :: "string list \<Rightarrow> 'w \<Rightarrow> 'e error option outcome \<times> 'w"

text \<open>\<open>CmdFunc\<close>: a function as a command without flags.\<close>

definition CmdFunc ::
  "(string list \<Rightarrow> 'w \<Rightarrow> 'e error option outcome \<times> 'w) \<Rightarrow> ('w, 'e) Cmd" where
  "CmdFunc s = \<lparr>cmd_Flags = (\<lambda>fs w. (Returns fs, w)), cmd_Run = (\<lambda>args w. s args w)\<rparr>"

record ('w, 'e) CmdCont =
  Cmd :: "('w, 'e) Cmd"
  Name :: string
  Desc :: string
  RequiredFlags :: "string list"
  Flags :: "('w, 'e) FlagSet"

text \<open>
  \<open>Path\<close> maps the names to the entries.  The Go map holds pointers; what \<open>Run\<close>
  changes behind the pointer (the flag set of the entry) is written back under the
  same key, and the pointer that \<open>Add\<close> and \<open>Run\<close> return is the entry as it is
  when they return.
\<close>

record ('w, 'e) Path =
  entries :: "string \<rightharpoonup> ('w, 'e) CmdCont"

definition NewPath :: "('w, 'e) Path" where
  "NewPath = \<lparr>entries = Map.empty\<rparr>"

definition Add ::
  "string \<Rightarrow> string \<Rightarrow> ('w, 'e) Cmd \<Rightarrow> string list \<Rightarrow> ('w, 'e) Path \<Rightarrow> 'w \<Rightarrow>
     ('w, 'e) CmdCont outcome \<times> ('w, 'e) Path \<times> 'w" where
  "Add name description command requiredFlags p w =
     (case cmd_Flags command (NewFlagSet name) w of
        (Panics, w') \<Rightarrow> (Panics, p, w')
      | (Returns fs, w') \<Rightarrow>
          let c = \<lparr>Cmd = command, Name = name, Desc = description,
                   RequiredFlags = requiredFlags, Flags = fs\<rparr>
          in (Returns c, p\<lparr>entries := (entries p)(name \<mapsto> c)\<rparr>, w'))"

text \<open>
  \<open>Path.Run\<close>; the function \<open>Run\<close> of the package is this one on the registry
  \<open>globalPath\<close>, which starts as \<open>NewPath()\<close>, and so for \<open>Add\<close>.  \<open>missingFlags\<close>
  is the key set of the Go map of that name: the required flags, without the names
  that \<open>Visit\<close> reports, the flags in \<open>actual\<close>.
  Go leaves open in which order \<open>range\<close> goes through a map and the runtime varies
  it; \<open>ord\<close> is the order taken in this call.
\<close>

definition Run ::
  "(string set \<Rightarrow> string list) \<Rightarrow> ('w, 'e) Path \<Rightarrow> string list \<Rightarrow> 'w \<Rightarrow>
     (('w, 'e) CmdCont option \<times> 'e error option) outcome \<times> ('w, 'e) Path \<times> 'w" where
  "Run ord p args w =
     (if dom (entries p) = {} \<or> length args < 1 then (Returns (None, Some ErrCmdUsage), p, w)
      else
        (case entries p (args ! 0) of
           Some cont \<Rightarrow>
             (case (if length args > 1 then Parse (Flags cont) (drop 1 args) w
                    else (None, Flags cont, w)) of
                (err, fs, w1) \<Rightarrow>
                  let cont' = cont\<lparr>Flags := fs\<rparr>;
                      p' = p\<lparr>entries := (entries p)(args ! 0 \<mapsto> cont')\<rparr>
                  in (case err of
                        Some e \<Rightarrow> (Returns (Some cont', Some e), p', w1)
                      | None \<Rightarrow>
                          let missingFlags = set (RequiredFlags cont') - actual (Flags cont')
                          in if missingFlags \<noteq> {}
                             then (Returns (Some cont',
                                      Some (RequiredFlagsNotSet (ord missingFlags))), p', w1)
                             else
                               (case cmd_Run (Cmd cont') (fs_args (Flags cont')) w1 of
                                  (Returns r, w2) \<Rightarrow> (Returns (Some cont', r), p', w2)
                                | (Panics, w2) \<Rightarrow> (Panics, p', w2))))
         | None \<Rightarrow> (Returns (None, Some ErrNoSuchCmd), p, w)))"

text \<open>
  What \<open>Add\<close> puts into the registry and nothing changes afterwards: for each name
  the name, description, required flags and command of its entry and the flags that
  the command has declared.
\<close>

definition registry_contents ::
  "('w, 'e) Path \<Rightarrow>
     string \<rightharpoonup> (string \<times> string \<times> string list \<times> ('w, 'e) Cmd \<times> (string \<rightharpoonup> ('w, 'e) Flag))" where
  "registry_contents p =
     (\<lambda>name. map_option (\<lambda>c. (Name c, Desc c, RequiredFlags c, Cmd c, formal (Flags c)))
        (entries p name))"

text \<open>The error of a call of \<open>Run\<close>, if it returns.\<close>

fun returned_error ::
  "(('w, 'e) CmdCont option \<times> 'e error option) outcome \<times> ('w, 'e) Path \<times> 'w \<Rightarrow>
     'e error option outcome" where
  "returned_error (Returns (c, err), p, w) = Returns err"
| "returned_error (Panics, p, w) = Panics"

text \<open>
  Two errors, and two results of \<open>Run\<close>, that are the same but for the order of the
  names in \<open>RequiredFlagsNotSet\<close>.
\<close>

definition same_up_to_order :: "'e error option \<Rightarrow> 'e error option \<Rightarrow> bool" where
  "same_up_to_order e e' =
     (case (e, e') of
        (Some (RequiredFlagsNotSet keys), Some (RequiredFlagsNotSet keys')) \<Rightarrow> mset keys = mset keys'
      | _ \<Rightarrow> e = e')"

fun same_outcome ::
  "(('w, 'e) CmdCont option \<times> 'e error option) outcome \<Rightarrow>
   (('w, 'e) CmdCont option \<times> 'e error option) outcome \<Rightarrow> bool" where
  "same_outcome (Returns (c, e)) (Returns (c', e')) = (c = c' \<and> same_up_to_order e e')"
| "same_outcome Panics Panics = True"
| "same_outcome _ _ = False"

text \<open>Two of the orders in which \<open>range\<close> may go through the keys of a map.\<close>

definition ascending :: "string set \<Rightarrow> string list" where
  "ascending S = sorted_list_of_set S"

definition descending :: "string set \<Rightarrow> string list" where
  "descending S = rev (sorted_list_of_set S)"

section \<open>The commands of the test and of the README\<close>

text \<open>
  The state of the test: the variable \<open>val\<close> of \<open>TestCommandFunc\<close> and the
  variable behind \<open>flagVerbose\<close> of the README's \<open>VersionCommand\<close>.
\<close>

record test_state =
  val :: string
  flagVerbose :: bool

text \<open>The function of the test: \<open>val = args[0]; return nil\<close>; \<open>args[0]\<close> panics without arguments.\<close>

definition hello_func :: "string list \<Rightarrow> test_state \<Rightarrow> unit error option outcome \<times> test_state" where
  "hello_func args w = (case args of [] \<Rightarrow> (Panics, w) | a # _ \<Rightarrow> (Returns None, w\<lparr>val := a\<rparr>))"

text \<open>\<open>strconv.ParseBool\<close> and the \<open>Set\<close> of a boolean flag value, which stores the result
  (\<open>false\<close> when the text is rejected) in the variable.\<close>

definition ParseBool :: "string \<Rightarrow> bool option" where
  "ParseBool s =
     (if s \<in> {''1'', ''t'', ''T'', ''TRUE'', ''true'', ''True''} then Some True
      else if s \<in> {''0'', ''f'', ''F'', ''FALSE'', ''false'', ''False''} then Some False
      else None)"

definition flagVerbose_Set :: "string \<Rightarrow> test_state \<Rightarrow> unit error option \<times> test_state" where
  "flagVerbose_Set s w =
     (case ParseBool s of
        Some b \<Rightarrow> (None, w\<lparr>flagVerbose := b\<rparr>)
      | None \<Rightarrow> (Some (Other ()), w\<lparr>flagVerbose := False\<rparr>))"

text \<open>
  \<open>VersionCommand\<close>: \<open>Flags\<close> is \<open>cmd.flagVerbose = fs.Bool("v", false, ...)\<close>, which
  sets the variable to the default and declares the flag; \<open>Run\<close> does nothing.
\<close>

definition VersionCommand :: "(test_state, unit) Cmd" where
  "VersionCommand =
     \<lparr>cmd_Flags = (\<lambda>fs w. (Var \<lparr>IsBoolFlag = True, Set_value = flagVerbose_Set\<rparr> ''v'' fs,
                               w\<lparr>flagVerbose := False\<rparr>)),
      cmd_Run = (\<lambda>args w. (Returns None, w))\<rparr>"

definition initial_state :: test_state where
  "initial_state = \<lparr>val = [], flagVerbose = False\<rparr>"

text \<open>The registry of \<open>TestCommandFunc\<close>: \<open>Add("hello", "simple testing function", CmdFunc(...))\<close>.\<close>

definition test_path :: "(test_state, unit) Path" where
  "test_path =
     fst (snd (Add ''hello'' ''simple testing function'' (CmdFunc hello_func) []
                 NewPath initial_state))"

text \<open>The registry of the README, with the flag \<open>v\<close> required.\<close>

definition readme_path :: "(test_state, unit) Path" where
  "readme_path =
     fst (snd (Add ''version'' ''prints the version'' VersionCommand [''v'']
                 NewPath initial_state))"

text \<open>The README's registry after \<open>Run("version", "-v")\<close> and after \<open>Run("version", "-v=false")\<close>.\<close>

definition readme_path_v :: "(test_state, unit) Path" where
  "readme_path_v = fst (snd (Run ascending readme_path [''version'', ''-v''] initial_state))"

definition readme_path_default :: "(test_state, unit) Path" where
  "readme_path_default =
     fst (snd (Run ascending readme_path [''version'', ''-v=false''] initial_state))"

text \<open>A registry whose one entry requires two flags: \<open>Add("hello", "", CmdFunc(...), "b", "a")\<close>.\<close>

definition two_flags_path :: "(test_state, unit) Path" where
  "two_flags_path =
     fst (snd (Add ''hello'' [] (CmdFunc hello_func) [''b'', ''a''] NewPath initial_state))"

text \<open>The same registry with the command of the README added.\<close>

definition two_flags_version_path :: "(test_state, unit) Path" where
  "two_flags_version_path =
     fst (snd (Add ''version'' ''prints the version'' VersionCommand [''v'']
                 two_flags_path initial_state))"

text \<open>The entries of these registries, written out.\<close>

definition hello_entry :: "(test_state, unit) CmdCont" where
  "hello_entry =
     \<lparr>Cmd = CmdFunc hello_func, Name = ''hello'', Desc = ''simple testing function'',
      RequiredFlags = [], Flags = NewFlagSet ''hello''\<rparr>"

definition version_entry :: "(test_state, unit) CmdCont" where
  "version_entry =
     \<lparr>Cmd = VersionCommand, Name = ''version'', Desc = ''prints the version'',
      RequiredFlags = [''v''],
      Flags = \<lparr>fs_name = ''version'',
               formal = [''v'' \<mapsto> \<lparr>IsBoolFlag = True, Set_value = flagVerbose_Set\<rparr>],
               actual = {}, fs_args = []\<rparr>\<rparr>"

definition two_flags_entry :: "(test_state, unit) CmdCont" where
  "two_flags_entry =
     \<lparr>Cmd = CmdFunc hello_func, Name = ''hello'', Desc = [],
      RequiredFlags = [''b'', ''a''], Flags = NewFlagSet ''hello''\<rparr>"

text \<open>
  The entry and the registry of the test after \<open>Run("hello", "world")\<close>: the flag set
  holds the argument that was left over.
\<close>

definition hello_entry_world :: "(test_state, unit) CmdCont" where
  "hello_entry_world = hello_entry\<lparr>Flags := (Flags hello_entry)\<lparr>fs_args := [''world'']\<rparr>\<rparr>"

definition test_path_world :: "(test_state, unit) Path" where
  "test_path_world = fst (snd (Run ascending test_path [''hello'', ''world''] initial_state))"

text \<open>The entry of \<open>version\<close> once the flag \<open>v\<close> has been set.\<close>

definition version_entry_set :: "(test_state, unit) CmdCont" where
  "version_entry_set = version_entry\<lparr>Flags := (Flags version_entry)\<lparr>actual := {''v''}\<rparr>\<rparr>"

text \<open>The entry of \<open>Add("hello", "prints the version", &VersionCommand{}, "v")\<close>.\<close>

definition hello_version_entry :: "(test_state, unit) CmdCont" where
  "hello_version_entry =
     \<lparr>Cmd = VersionCommand, Name = ''hello'', Desc = ''prints the version'',
      RequiredFlags = [''v''],
      Flags = \<lparr>fs_name = ''hello'',
               formal = [''v'' \<mapsto> \<lparr>IsBoolFlag = True, Set_value = flagVerbose_Set\<rparr>],
               actual = {}, fs_args = []\<rparr>\<rparr>"

section \<open>Properties of the flag set\<close>

text \<open>What \<open>Parse\<close> leaves in \<open>args\<close> is the end of the arguments it was given.\<close>

lemma set_flag_suffix:
  "set_flag name hv v f w = (r, f', w') \<Longrightarrow> suffix (fs_args f') (fs_args f)"
  by (auto simp: set_flag_def split: option.splits if_splits prod.splits)

lemma parseOne_suffix:
  "parseOne f w = (r, f', w') \<Longrightarrow> suffix (fs_args f') (fs_args f)"
  by (auto simp: parseOne_def Let_def suffix_ConsI split: list.splits if_splits prod.splits
           dest!: set_flag_suffix)

lemma parse_loop_suffix:
  "parse_loop f w = (err, f', w') \<Longrightarrow> suffix (fs_args f') (fs_args f)"
proof (induction f w rule: parse_loop.induct)
  case (1 f w)
  obtain seen e f1 w1 where one: "parseOne f w = ((seen, e), f1, w1)"
    by (metis prod.exhaust)
  show ?case
  proof (cases seen)
    case True
    with one "1.prems" have "parse_loop f1 w1 = (err, f', w')"
      by (simp add: parse_loop.simps [of f w])
    with "1.IH" one True have "suffix (fs_args f') (fs_args f1)"
      by simp
    with parseOne_suffix [OF one] show ?thesis
      by (blast intro: suffix_order.trans)
  next
    case False
    with one "1.prems" have "f' = f1"
      by (simp add: parse_loop.simps [of f w])
    with parseOne_suffix [OF one] show ?thesis
      by simp
  qed
qed

lemma Parse_suffix:
  "Parse f arguments w = (err, f', w') \<Longrightarrow> suffix (fs_args f') arguments"
  using parse_loop_suffix [of "f\<lparr>fs_args := arguments\<rparr>" w err f' w']
  by (simp add: Parse_def)

lemma set_flag_static:
  "set_flag name hv v f w = (r, f', w') \<Longrightarrow>
     formal f' = formal f \<and> fs_name f' = fs_name f \<and> actual f \<subseteq> actual f'"
  by (auto simp: set_flag_def split: option.splits if_splits prod.splits)

lemma parseOne_static:
  "parseOne f w = (r, f', w') \<Longrightarrow>
     formal f' = formal f \<and> fs_name f' = fs_name f \<and> actual f \<subseteq> actual f'"
  by (auto simp: parseOne_def Let_def split: list.splits if_splits prod.splits
           dest!: set_flag_static)

lemma parse_loop_static:
  "parse_loop f w = (err, f', w') \<Longrightarrow>
     formal f' = formal f \<and> fs_name f' = fs_name f \<and> actual f \<subseteq> actual f'"
proof (induction f w rule: parse_loop.induct)
  case (1 f w)
  obtain seen e f1 w1 where one: "parseOne f w = ((seen, e), f1, w1)"
    by (metis prod.exhaust)
  show ?case
  proof (cases seen)
    case True
    with one "1.prems" have "parse_loop f1 w1 = (err, f', w')"
      by (simp add: parse_loop.simps [of f w])
    with "1.IH" one True
    have "formal f' = formal f1 \<and> fs_name f' = fs_name f1 \<and> actual f1 \<subseteq> actual f'"
      by simp
    with parseOne_static [OF one] show ?thesis
      by auto
  next
    case False
    with one "1.prems" have "f' = f1"
      by (simp add: parse_loop.simps [of f w])
    with parseOne_static [OF one] show ?thesis
      by simp
  qed
qed

lemma Parse_static:
  "Parse f arguments w = (err, f', w') \<Longrightarrow>
     formal f' = formal f \<and> fs_name f' = fs_name f \<and> actual f \<subseteq> actual f'"
  using parse_loop_static [of "f\<lparr>fs_args := arguments\<rparr>" w err f' w']
  by (simp add: Parse_def)

lemma Run_entries:
  assumes run: "Run ord p args w = (r, p', w')"
  shows "p' = p \<or>
         (\<exists>name cont fs. entries p name = Some cont \<and> formal fs = formal (Flags cont) \<and>
            p' = p\<lparr>entries := (entries p)(name \<mapsto> cont\<lparr>Flags := fs\<rparr>)\<rparr>)"
proof (cases "dom (entries p) = {} \<or> args = []")
  case True
  with run show ?thesis by (auto simp: Run_def)
next
  case False
  then obtain name rest where args: "args = name # rest"
    by (cases args) auto
  show ?thesis
  proof (cases "entries p name")
    case None
    with run False args show ?thesis by (auto simp: Run_def)
  next
    case (Some cont)
    obtain err fs w1 where
      parsed: "(if length args > 1 then Parse (Flags cont) (drop 1 args) w
                else (None, Flags cont, w)) = (err, fs, w1)"
      by (metis prod.exhaust)
    then have "formal fs = formal (Flags cont)"
      by (auto split: if_splits dest: Parse_static)
    moreover have "p' = p\<lparr>entries := (entries p)(name \<mapsto> cont\<lparr>Flags := fs\<rparr>)\<rparr>"
      using run False args Some parsed
      by (auto simp: Run_def Let_def split: if_splits option.splits prod.splits outcome.splits)
    ultimately show ?thesis using Some by blast
  qed
qed

text \<open>\<open>Run\<close> on a registered name, once the flags are parsed.\<close>

lemma Run_Some:
  assumes "entries p name = Some cont"
    and "(if rest \<noteq> [] then Parse (Flags cont) rest w else (None, Flags cont, w)) = (e, fs, w1)"
  shows "Run ord p (name # rest) w =
           (case e of
              Some err \<Rightarrow>
                (Returns (Some (cont\<lparr>Flags := fs\<rparr>), Some err),
                 p\<lparr>entries := (entries p)(name \<mapsto> cont\<lparr>Flags := fs\<rparr>)\<rparr>, w1)
            | None \<Rightarrow>
                if set (RequiredFlags cont) - actual fs \<noteq> {}
                then (Returns (Some (cont\<lparr>Flags := fs\<rparr>),
                        Some (RequiredFlagsNotSet (ord (set (RequiredFlags cont) - actual fs)))),
                      p\<lparr>entries := (entries p)(name \<mapsto> cont\<lparr>Flags := fs\<rparr>)\<rparr>, w1)
                else
                  (case cmd_Run (Cmd cont) (fs_args fs) w1 of
                     (Returns r, w2) \<Rightarrow>
                       (Returns (Some (cont\<lparr>Flags := fs\<rparr>), r),
                        p\<lparr>entries := (entries p)(name \<mapsto> cont\<lparr>Flags := fs\<rparr>)\<rparr>, w2)
                   | (Panics, w2) \<Rightarrow>
                       (Panics, p\<lparr>entries := (entries p)(name \<mapsto> cont\<lparr>Flags := fs\<rparr>)\<rparr>, w2)))"
proof -
  from assms(1) have "dom (entries p) \<noteq> {}"
    by auto
  moreover from assms(2)
  have "(if 1 < length (name # rest) then Parse (Flags cont) (drop 1 (name # rest)) w
         else (None, Flags cont, w)) = (e, fs, w1)"
    by (cases rest) simp_all
  ultimately show ?thesis
    using assms(1) by (cases e) (simp_all add: Run_def Let_def)
qed

text \<open>The entry that \<open>Run\<close> returns is the registered one, up to the state of its flag set.\<close>

lemma Run_resolves:
  assumes entry: "entries p name = Some cont"
    and run: "fst (Run ord p (name # rest) w) = Returns (c, err)"
  shows "map_option (\<lambda>c. c\<lparr>Flags := Flags cont\<rparr>) c = Some cont"
proof -
  obtain e fs w1 where
    parsed: "(if length (name # rest) > 1 then Parse (Flags cont) (drop 1 (name # rest)) w
              else (None, Flags cont, w)) = (e, fs, w1)"
    by (metis prod.exhaust)
  from entry have "dom (entries p) \<noteq> {}"
    by auto
  with entry run parsed have "c = Some (cont\<lparr>Flags := fs\<rparr>)"
    by (simp add: Run_def Let_def split: if_splits option.splits prod.splits outcome.splits)
  then show ?thesis
    by simp
qed

lemma same_up_to_order_refl: "same_up_to_order e e"
  by (auto simp: same_up_to_order_def split: option.splits error.splits)

lemma same_up_to_order_missing:
  "mset keys = mset keys' \<Longrightarrow>
     same_up_to_order (Some (RequiredFlagsNotSet keys)) (Some (RequiredFlagsNotSet keys'))"
  by (simp add: same_up_to_order_def)

text \<open>\<open>ascending\<close> and \<open>descending\<close> go through every key once.\<close>

lemma range_orders:
  "finite S \<Longrightarrow>
     set (ascending S) = S \<and> distinct (ascending S) \<and>
     set (descending S) = S \<and> distinct (descending S)"
  by (simp add: ascending_def descending_def)

section \<open>The registries of the test and of the README, evaluated\<close>

lemma test_path_eq: "test_path = \<lparr>entries = [''hello'' \<mapsto> hello_entry]\<rparr>"
  by (simp add: test_path_def hello_entry_def Add_def CmdFunc_def NewPath_def Let_def)

lemma readme_path_eq: "readme_path = \<lparr>entries = [''version'' \<mapsto> version_entry]\<rparr>"
  by (simp add: readme_path_def version_entry_def Add_def VersionCommand_def Var_def
        NewFlagSet_def NewPath_def Let_def)

lemma two_flags_path_eq: "two_flags_path = \<lparr>entries = [''hello'' \<mapsto> two_flags_entry]\<rparr>"
  by (simp add: two_flags_path_def two_flags_entry_def Add_def CmdFunc_def NewPath_def Let_def)

lemma Parse_v:
  "Parse (Flags version_entry) [''-v''] w =
     (None, (Flags version_entry)\<lparr>actual := {''v''}\<rparr>, w\<lparr>flagVerbose := True\<rparr>)"
  by (simp add: Let_def Parse_def parse_loop.simps parseOne_def split_value_def set_flag_def
        version_entry_def flagVerbose_Set_def ParseBool_def)

lemma Parse_v_false:
  "Parse (Flags version_entry) [''-v=false''] w =
     (None, (Flags version_entry)\<lparr>actual := {''v''}\<rparr>, w\<lparr>flagVerbose := False\<rparr>)"
  by (simp add: Let_def Parse_def parse_loop.simps parseOne_def split_value_def set_flag_def
        version_entry_def flagVerbose_Set_def ParseBool_def)

lemma Parse_x:
  "Parse (Flags version_entry) [''-x''] w =
     (Some (FlagNotDefined ''x''), Flags version_entry, w)"
  by (simp add: Let_def Parse_def parse_loop.simps parseOne_def split_value_def set_flag_def
        version_entry_def)

lemma Parse_world:
  "Parse (Flags hello_entry) [''world''] w =
     (None, (Flags hello_entry)\<lparr>fs_args := [''world'']\<rparr>, w)"
  by (simp add: Let_def Parse_def parse_loop.simps parseOne_def hello_entry_def)

lemma Run_version_v:
  "Run ord readme_path [''version'', ''-v''] initial_state =
     (Returns (Some version_entry_set, None), \<lparr>entries = [''version'' \<mapsto> version_entry_set]\<rparr>,
      initial_state\<lparr>flagVerbose := True\<rparr>)"
  by (simp add: Run_def readme_path_eq Parse_v Let_def version_entry_set_def)
     (simp add: version_entry_def VersionCommand_def)

lemma Run_version_v_false:
  "Run ord readme_path [''version'', ''-v=false''] initial_state =
     (Returns (Some version_entry_set, None), \<lparr>entries = [''version'' \<mapsto> version_entry_set]\<rparr>,
      initial_state)"
  by (simp add: Run_def readme_path_eq Parse_v_false Let_def version_entry_set_def)
     (simp add: version_entry_def VersionCommand_def initial_state_def)

lemma readme_path_v_eq: "readme_path_v = \<lparr>entries = [''version'' \<mapsto> version_entry_set]\<rparr>"
  by (simp add: readme_path_v_def Run_version_v)

lemma readme_path_default_eq:
  "readme_path_default = \<lparr>entries = [''version'' \<mapsto> version_entry_set]\<rparr>"
  by (simp add: readme_path_default_def Run_version_v_false)

lemma Run_version_fresh:
  "Run ascending readme_path [''version''] initial_state =
     (Returns (Some version_entry, Some (RequiredFlagsNotSet [''v''])), readme_path, initial_state)"
  by (simp add: Run_def readme_path_eq Let_def)
     (simp add: version_entry_def ascending_def)

lemma Run_version_stale:
  "Run ord \<lparr>entries = [''version'' \<mapsto> version_entry_set]\<rparr> [''version''] w =
     (Returns (Some version_entry_set, None), \<lparr>entries = [''version'' \<mapsto> version_entry_set]\<rparr>, w)"
  by (simp add: Run_def Let_def)
     (simp add: version_entry_set_def version_entry_def VersionCommand_def)

lemma Run_two_flags_descending:
  "Run descending two_flags_path [''hello''] initial_state =
     (Returns (Some two_flags_entry, Some (RequiredFlagsNotSet [''b'', ''a''])),
      two_flags_path, initial_state)"
  by (simp add: Run_def two_flags_path_eq Let_def)
     (simp add: two_flags_entry_def NewFlagSet_def descending_def less_eq_char_def)

lemma Run_two_flags_ascending:
  "Run ascending two_flags_path [''hello''] initial_state =
     (Returns (Some two_flags_entry, Some (RequiredFlagsNotSet [''a'', ''b''])),
      two_flags_path, initial_state)"
  by (simp add: Run_def two_flags_path_eq Let_def)
     (simp add: two_flags_entry_def NewFlagSet_def ascending_def less_eq_char_def)

lemma two_flags_version_path_eq:
  "two_flags_version_path =
     \<lparr>entries = [''hello'' \<mapsto> two_flags_entry, ''version'' \<mapsto> version_entry]\<rparr>"
  by (simp add: two_flags_version_path_def two_flags_path_eq version_entry_def Add_def
        VersionCommand_def Var_def NewFlagSet_def Let_def)

lemma Run_two_flags_version_descending:
  "fst (Run descending two_flags_version_path [''hello''] initial_state) =
     Returns (Some two_flags_entry, Some (RequiredFlagsNotSet [''b'', ''a'']))"
  by (simp add: Run_def two_flags_version_path_eq Let_def)
     (simp add: two_flags_entry_def NewFlagSet_def descending_def less_eq_char_def)

lemma Parse_v_world:
  "Parse (Flags hello_version_entry) [''-v'', ''world''] w =
     (None, (Flags hello_version_entry)\<lparr>actual := {''v''}, fs_args := [''world'']\<rparr>,
      w\<lparr>flagVerbose := True\<rparr>)"
  by (simp add: Let_def Parse_def parse_loop.simps parseOne_def split_value_def set_flag_def
        hello_version_entry_def flagVerbose_Set_def ParseBool_def)

lemma Run_hello_version:
  "fst (Run ord \<lparr>entries = [''hello'' \<mapsto> hello_version_entry]\<rparr>
          [''hello'', ''-v'', ''world''] w) =
     Returns (Some (hello_version_entry\<lparr>Flags :=
        (Flags hello_version_entry)\<lparr>actual := {''v''}, fs_args := [''world'']\<rparr>\<rparr>), None)"
  by (simp add: Run_def Parse_v_world Let_def)
     (simp add: hello_version_entry_def VersionCommand_def)

section \<open>Usage and unknown commands\<close>

text \<open>
  C1.  If the registry has no entry or there is no argument, \<open>Run\<close> returns no entry
  and \<open>ErrCmdUsage\<close>; the registry and the state of the commands are as before, so
  no command has run.
\<close>

theorem Run_usage:
  "dom (entries p) = {} \<or> args = [] \<Longrightarrow>
     Run ord p args w = (Returns (None, Some ErrCmdUsage), p, w)"
  by (auto simp: Run_def)

theorem Run_usage_witness:
  "(dom (entries (NewPath :: (test_state, unit) Path)) = {} \<or> [''hello'', ''world''] = []) \<and>
   Run ascending (NewPath :: (test_state, unit) Path) [''hello'', ''world''] initial_state =
     (Returns (None, Some ErrCmdUsage), NewPath, initial_state) \<and>
   dom (entries test_path) = {''hello''} \<and>
   (dom (entries test_path) = {} \<or> ([] :: string list) = []) \<and>
   Run ascending test_path [] initial_state =
     (Returns (None, Some ErrCmdUsage), test_path, initial_state)"
  using Run_usage [where p = "NewPath :: (test_state, unit) Path"
      and args = "[''hello'', ''world'']" and ord = ascending and w = initial_state]
    Run_usage [where p = test_path and args = "[]" and ord = ascending and w = initial_state]
  by (simp add: NewPath_def test_path_eq)

text \<open>
  C2.  If the registry has an entry and the first argument is not a registered name,
  \<open>Run\<close> returns no entry and \<open>ErrNoSuchCmd\<close>, not the usage error; the registry and
  the state of the commands are as before.
\<close>

theorem Run_no_such_cmd:
  "dom (entries p) \<noteq> {} \<Longrightarrow> args \<noteq> [] \<Longrightarrow> hd args \<notin> dom (entries p) \<Longrightarrow>
     Run ord p args w = (Returns (None, Some ErrNoSuchCmd), p, w) \<and>
     fst (Run ord p args w) \<noteq> Returns (None, Some ErrCmdUsage)"
  by (cases args) (auto simp: Run_def domIff)

theorem Run_no_such_cmd_witness:
  "dom (entries test_path) \<noteq> {} \<and> [''bye'', ''-v''] \<noteq> [] \<and>
   hd [''bye'', ''-v''] \<notin> dom (entries test_path) \<and>
   Run ascending test_path [''bye'', ''-v''] initial_state =
     (Returns (None, Some ErrNoSuchCmd), test_path, initial_state)"
  using Run_no_such_cmd [where p = test_path and args = "[''bye'', ''-v'']"
      and ord = ascending and w = initial_state]
  by (simp add: test_path_eq)

section \<open>Errors of the flag set\<close>

text \<open>
  C7.  If parsing the flags of the matched entry fails, \<open>Run\<close> returns the error of
  \<open>Parse\<close> and the entry.  The result does not depend on the required flags, and the
  state of the commands is the one that \<open>Parse\<close> has left: the command has not run.
\<close>

theorem Run_parse_error:
  "entries p name = Some cont \<Longrightarrow> rest \<noteq> [] \<Longrightarrow>
   Parse (Flags cont) rest w = (Some e, fs, w') \<Longrightarrow>
     Run ord p (name # rest) w =
       (Returns (Some (cont\<lparr>Flags := fs\<rparr>), Some e),
        p\<lparr>entries := (entries p)(name \<mapsto> cont\<lparr>Flags := fs\<rparr>)\<rparr>, w')"
  by (auto simp: Run_def Let_def)

theorem Run_parse_error_witness:
  "entries readme_path ''version'' = Some version_entry \<and> [''-x''] \<noteq> [] \<and>
   Parse (Flags version_entry) [''-x''] initial_state =
     (Some (FlagNotDefined ''x''), Flags version_entry, initial_state) \<and>
   set (RequiredFlags version_entry) - actual (Flags version_entry) = {''v''} \<and>
   Run ascending readme_path [''version'', ''-x''] initial_state =
     (Returns (Some version_entry, Some (FlagNotDefined ''x'')), readme_path, initial_state)"
  using Run_parse_error [where p = readme_path and name = "''version''" and cont = version_entry
      and rest = "[''-x'']" and w = initial_state and e = "FlagNotDefined ''x''"
      and fs = "Flags version_entry" and w' = initial_state and ord = ascending]
  by (simp add: readme_path_eq Parse_x) (simp add: version_entry_def)

section \<open>The command without flags\<close>

text \<open>
  C9.  \<open>CmdFunc\<close> leaves the flag set it is given as it is, so the entry that \<open>Add\<close>
  makes for it has no declared flag, and its \<open>Run\<close> is the wrapped function on the
  same arguments, with the same result.
\<close>

theorem CmdFunc_forwards:
  "cmd_Flags (CmdFunc s) fs w = (Returns fs, w) \<and> cmd_Run (CmdFunc s) args w = s args w \<and>
   Add name description (CmdFunc s) requiredFlags p w =
     (Returns \<lparr>Cmd = CmdFunc s, Name = name, Desc = description,
               RequiredFlags = requiredFlags, Flags = NewFlagSet name\<rparr>,
      p\<lparr>entries := (entries p)(name \<mapsto>
           \<lparr>Cmd = CmdFunc s, Name = name, Desc = description,
            RequiredFlags = requiredFlags, Flags = NewFlagSet name\<rparr>)\<rparr>, w) \<and>
   formal (NewFlagSet name :: ('w, 'e) FlagSet) = Map.empty"
  by (simp add: CmdFunc_def Add_def NewFlagSet_def Let_def)

section \<open>What Run leaves unchanged\<close>

text \<open>
  C10.  \<open>Run\<close> does not add, remove or replace an entry: after the call the same
  names are registered, and every name has the entry it had, with the same name,
  description, required flags, command and declared flags.
\<close>

theorem Run_frame:
  "registry_contents (fst (snd (Run ord p args w))) = registry_contents p \<and>
   dom (entries (fst (snd (Run ord p args w)))) = dom (entries p)"
proof -
  obtain r p' w' where run: "Run ord p args w = (r, p', w')"
    by (metis prod.exhaust)
  from Run_entries [OF run]
  have contents: "registry_contents p' = registry_contents p"
    by (auto simp: registry_contents_def fun_eq_iff)
  have names: "dom (entries q) = dom (registry_contents q)" for q :: "('w, 'e) Path"
    by (auto simp: registry_contents_def dom_def)
  have "dom (entries p') = dom (entries p)"
    unfolding names contents ..
  with contents show ?thesis
    unfolding run by simp
qed

section \<open>Required flags\<close>

text \<open>
  C4 does not hold as it is stated.  The names of the missing flags are not sorted:
  they come in the order in which \<open>range\<close> goes through the map, and two calls on
  the same registry can give the two names in either order.
\<close>

theorem missing_flags_not_sorted:
  "Run descending two_flags_path [''hello''] initial_state =
     (Returns (Some two_flags_entry, Some (RequiredFlagsNotSet [''b'', ''a''])),
      two_flags_path, initial_state) \<and>
   \<not> sorted [''b'', ''a''] \<and>
   Run ascending two_flags_path [''hello''] initial_state =
     (Returns (Some two_flags_entry, Some (RequiredFlagsNotSet [''a'', ''b''])),
      two_flags_path, initial_state)"
  by (simp add: Run_two_flags_descending Run_two_flags_ascending less_eq_char_def)

text \<open>
  C4, in the form that holds.  If the flags of the matched entry are parsed without
  error (or there is nothing to parse) and a required flag is not among the flags of
  \<open>actual\<close>, \<open>Run\<close> returns the entry and the error \<open>RequiredFlagsNotSet\<close>, which
  lists every missing name once, in the order of the map iteration; the command has
  not run.
\<close>

theorem Run_missing_required:
  assumes "entries p name = Some cont"
    and "(if rest \<noteq> [] then Parse (Flags cont) rest w else (None, Flags cont, w)) = (None, fs, w')"
    and "set (RequiredFlags cont) - actual fs \<noteq> {}"
    and "set (ord (set (RequiredFlags cont) - actual fs)) = set (RequiredFlags cont) - actual fs"
    and "distinct (ord (set (RequiredFlags cont) - actual fs))"
  shows "\<exists>keys. Run ord p (name # rest) w =
           (Returns (Some (cont\<lparr>Flags := fs\<rparr>), Some (RequiredFlagsNotSet keys)),
            p\<lparr>entries := (entries p)(name \<mapsto> cont\<lparr>Flags := fs\<rparr>)\<rparr>, w') \<and>
         set keys = set (RequiredFlags cont) - actual fs \<and> distinct keys"
  using assms by (auto simp: Run_def Let_def split: if_splits)

theorem Run_missing_required_witness:
  "entries two_flags_path ''hello'' = Some two_flags_entry \<and>
   (if ([] :: string list) \<noteq> [] then Parse (Flags two_flags_entry) [] initial_state
    else (None, Flags two_flags_entry, initial_state)) =
     (None, Flags two_flags_entry, initial_state) \<and>
   set (RequiredFlags two_flags_entry) - actual (Flags two_flags_entry) = {''b'', ''a''} \<and>
   descending {''b'', ''a''} = [''b'', ''a''] \<and>
   (\<exists>keys. Run descending two_flags_path [''hello''] initial_state =
      (Returns (Some two_flags_entry, Some (RequiredFlagsNotSet keys)),
       two_flags_path, initial_state) \<and>
      set keys = {''b'', ''a''} \<and> distinct keys)"
proof -
  have missing: "set (RequiredFlags two_flags_entry) - actual (Flags two_flags_entry) = {''b'', ''a''}"
    by (auto simp: two_flags_entry_def NewFlagSet_def)
  have order: "descending {''b'', ''a''} = [''b'', ''a'']"
    by (simp add: descending_def less_eq_char_def)
  have entry: "entries two_flags_path ''hello'' = Some two_flags_entry"
    by (simp add: two_flags_path_eq)
  have same: "two_flags_path\<lparr>entries := (entries two_flags_path)(''hello'' \<mapsto>
                two_flags_entry)\<rparr> = two_flags_path"
    by (simp add: two_flags_path_eq)
  from Run_missing_required [where p = two_flags_path and name = "''hello''"
      and cont = two_flags_entry and rest = "[]" and w = initial_state
      and fs = "Flags two_flags_entry" and w' = initial_state and ord = descending]
  show ?thesis
    by (simp add: missing order entry same)
qed

text \<open>
  C3.  The flags that count as set are those of \<open>actual\<close>, and \<open>Parse\<close> never
  empties \<open>actual\<close>.  On the README's registry \<open>Run("version")\<close> reports the flag
  \<open>v\<close> as missing, and \<open>Run("version", "-v=false")\<close>, which gives the flag its
  default, passes.  In the registry and state which that call leaves,
  \<open>Run("version")\<close> passes as well, although its arguments do not mention \<open>v\<close>.
\<close>

theorem required_flag_of_earlier_call:
  "returned_error (Run ascending readme_path [''version''] initial_state) =
     Returns (Some (RequiredFlagsNotSet [''v''])) \<and>
   Run ascending readme_path [''version'', ''-v=false''] initial_state =
     (Returns (Some version_entry_set, None), readme_path_default, initial_state) \<and>
   Run ascending readme_path_default [''version''] initial_state =
     (Returns (Some version_entry_set, None), readme_path_default, initial_state)"
  by (simp add: Run_version_fresh Run_version_v_false readme_path_default_eq Run_version_stale)

section \<open>Running the command\<close>

text \<open>
  If the flags are parsed without error (or there is nothing to parse) and no required
  flag is missing, \<open>Run\<close> calls the command once, with \<open>args\<close> of the flag set, and
  returns the entry with what the command returned; if the command panics, so does
  \<open>Run\<close>.  After a \<open>Parse\<close> these arguments are the end of \<open>args[1:]\<close>; without
  one they are what the flag set held before the call.
\<close>

lemma Run_invokes_run:
  assumes "entries p name = Some cont"
    and "(if rest \<noteq> [] then Parse (Flags cont) rest w else (None, Flags cont, w)) = (None, fs, w1)"
    and "set (RequiredFlags cont) \<subseteq> actual fs"
  shows "Run ord p (name # rest) w =
           (case cmd_Run (Cmd cont) (fs_args fs) w1 of
              (Returns r, w2) \<Rightarrow>
                (Returns (Some (cont\<lparr>Flags := fs\<rparr>), r),
                 p\<lparr>entries := (entries p)(name \<mapsto> cont\<lparr>Flags := fs\<rparr>)\<rparr>, w2)
            | (Panics, w2) \<Rightarrow>
                (Panics, p\<lparr>entries := (entries p)(name \<mapsto> cont\<lparr>Flags := fs\<rparr>)\<rparr>, w2)) \<and>
         (if rest \<noteq> [] then suffix (fs_args fs) rest else fs_args fs = fs_args (Flags cont))"
  using assms by (auto simp: Run_def Let_def split: if_splits dest: Parse_suffix)

text \<open>The scenario of \<open>TestCommandFunc\<close>: \<open>Run("hello", "world")\<close> stores \<open>world\<close> in \<open>val\<close>.\<close>

lemma Run_hello_world:
  "Run ord test_path [''hello'', ''world''] initial_state =
     (Returns (Some hello_entry_world, None), \<lparr>entries = [''hello'' \<mapsto> hello_entry_world]\<rparr>,
      initial_state\<lparr>val := ''world''\<rparr>)"
proof -
  have entry: "entries test_path ''hello'' = Some hello_entry"
    by (simp add: test_path_eq)
  have required: "RequiredFlags hello_entry = []" and cmd: "Cmd hello_entry = CmdFunc hello_func"
    by (simp_all add: hello_entry_def)
  from Run_invokes_run [where p = test_path and name = "''hello''" and cont = hello_entry
      and rest = "[''world'']" and w = initial_state
      and fs = "(Flags hello_entry)\<lparr>fs_args := [''world'']\<rparr>" and ?w1.0 = initial_state
      and ord = ord]
  show ?thesis
    by (simp add: entry required cmd Parse_world CmdFunc_def hello_func_def hello_entry_world_def)
       (simp add: test_path_eq)
qed

lemma test_path_world_eq: "test_path_world = \<lparr>entries = [''hello'' \<mapsto> hello_entry_world]\<rparr>"
  by (simp add: test_path_world_def Run_hello_world)

text \<open>
  On the registry that this call leaves, \<open>Run("hello")\<close> does not parse and hands the
  function the argument of the earlier call; on the registry of the test as \<open>Add\<close>
  has made it, the function gets no argument and \<open>args[0]\<close> panics.
\<close>

lemma Run_hello_again:
  "Run ord \<lparr>entries = [''hello'' \<mapsto> hello_entry_world]\<rparr> [''hello''] w =
     (Returns (Some hello_entry_world, None), \<lparr>entries = [''hello'' \<mapsto> hello_entry_world]\<rparr>,
      w\<lparr>val := ''world''\<rparr>)"
  by (simp add: Run_def Let_def)
     (simp add: hello_entry_world_def hello_entry_def NewFlagSet_def CmdFunc_def hello_func_def)

lemma Run_hello_fresh:
  "Run ord test_path [''hello''] w = (Panics, test_path, w)"
  by (simp add: Run_def test_path_eq Let_def)
     (simp add: hello_entry_def NewFlagSet_def CmdFunc_def hello_func_def)

text \<open>
  C5.  The arguments that the command gets are \<open>args\<close> of the flag set, and a call
  with the name alone does not parse, so they are not always what this call has left
  over.  On the registry of the test \<open>Run("hello", "world")\<close> hands the function
  \<open>world\<close> and returns its \<open>nil\<close> with the entry, as the test expects.  In the
  registry which that call leaves, \<open>Run("hello")\<close> hands the function \<open>world\<close> again
  (it stores it in \<open>val\<close>, also when \<open>val\<close> has been emptied), although this call
  has no argument left over; on the registry as \<open>Add\<close> has made it the same call
  hands the function no argument, and \<open>args[0]\<close> panics.
\<close>

theorem leftover_arguments_of_earlier_call:
  "Run ascending test_path [''hello'', ''world''] initial_state =
     (Returns (Some hello_entry_world, None), test_path_world,
      initial_state\<lparr>val := ''world''\<rparr>) \<and>
   fs_args (Flags hello_entry_world) = [''world''] \<and>
   Run ascending test_path_world [''hello''] (initial_state\<lparr>val := ''world''\<rparr>) =
     (Returns (Some hello_entry_world, None), test_path_world,
      initial_state\<lparr>val := ''world''\<rparr>) \<and>
   Run ascending test_path_world [''hello''] initial_state =
     (Returns (Some hello_entry_world, None), test_path_world,
      initial_state\<lparr>val := ''world''\<rparr>) \<and>
   Run ascending test_path [''hello''] initial_state = (Panics, test_path, initial_state)"
  by (simp add: Run_hello_world test_path_world_eq Run_hello_again Run_hello_fresh)
     (simp add: hello_entry_world_def)

section \<open>Registering a name again\<close>

text \<open>
  C8.  \<open>Add\<close> on a name that is registered returns the new entry whenever the
  \<open>Flags\<close> of the new command returns: there is no error for the collision.  The
  registry is then as if the first registration had not happened, and \<open>Run\<close> on that
  name returns the second entry (up to the state of its flag set).
\<close>

theorem Add_last_write_wins:
  assumes "Add name d1 c1 r1 p w = (Returns e1, p1, w1)"
    and "cmd_Flags c2 (NewFlagSet name) w1 = (Returns fs2, w2)"
  shows "let e2 = \<lparr>Cmd = c2, Name = name, Desc = d2, RequiredFlags = r2, Flags = fs2\<rparr>;
             p2 = p\<lparr>entries := (entries p)(name \<mapsto> e2)\<rparr>
         in entries p1 name = Some e1 \<and>
            Add name d2 c2 r2 p1 w1 = (Returns e2, p2, w2) \<and>
            entries p2 name = Some e2 \<and>
            (case fst (Run ord p2 (name # rest) w') of
               Returns (c, err) \<Rightarrow> map_option (\<lambda>c. c\<lparr>Flags := fs2\<rparr>) c = Some e2
             | Panics \<Rightarrow> True)"
proof -
  define e2 where "e2 = \<lparr>Cmd = c2, Name = name, Desc = d2, RequiredFlags = r2, Flags = fs2\<rparr>"
  define p2 where "p2 = p\<lparr>entries := (entries p)(name \<mapsto> e2)\<rparr>"
  from assms(1) have p1: "p1 = p\<lparr>entries := (entries p)(name \<mapsto> e1)\<rparr>"
    by (auto simp: Add_def Let_def split: prod.splits outcome.splits)
  then have first: "entries p1 name = Some e1"
    by simp
  from assms(2) p1 have second: "Add name d2 c2 r2 p1 w1 = (Returns e2, p2, w2)"
    by (simp add: Add_def Let_def e2_def p2_def)
  have entry: "entries p2 name = Some e2"
    by (simp add: p2_def)
  have "map_option (\<lambda>c. c\<lparr>Flags := fs2\<rparr>) c = Some e2"
    if "fst (Run ord p2 (name # rest) w') = Returns (c, err)" for c err
    using Run_resolves [OF entry that] by (simp add: e2_def)
  then have "case fst (Run ord p2 (name # rest) w') of
               Returns (c, err) \<Rightarrow> map_option (\<lambda>c. c\<lparr>Flags := fs2\<rparr>) c = Some e2
             | Panics \<Rightarrow> True"
    by (auto split: outcome.splits)
  with first second entry show ?thesis
    unfolding Let_def e2_def [symmetric] p2_def [symmetric] by simp
qed

theorem Add_last_write_wins_witness:
  "Add ''hello'' ''simple testing function'' (CmdFunc hello_func) [] NewPath initial_state =
     (Returns hello_entry, test_path, initial_state) \<and>
   cmd_Flags VersionCommand (NewFlagSet ''hello'') initial_state =
     (Returns (Flags hello_version_entry), initial_state) \<and>
   entries test_path ''hello'' = Some hello_entry \<and>
   Add ''hello'' ''prints the version'' VersionCommand [''v''] test_path initial_state =
     (Returns hello_version_entry, \<lparr>entries = [''hello'' \<mapsto> hello_version_entry]\<rparr>,
      initial_state) \<and>
   fst (Run ascending \<lparr>entries = [''hello'' \<mapsto> hello_version_entry]\<rparr>
          [''hello'', ''-v'', ''world''] initial_state) =
     Returns (Some (hello_version_entry\<lparr>Flags :=
        (Flags hello_version_entry)\<lparr>actual := {''v''}, fs_args := [''world'']\<rparr>\<rparr>), None)"
proof -
  have first: "Add ''hello'' ''simple testing function'' (CmdFunc hello_func) [] NewPath initial_state =
      (Returns hello_entry, test_path, initial_state)"
    by (simp add: test_path_eq Add_def CmdFunc_def hello_entry_def NewPath_def Let_def)
  have flags: "cmd_Flags VersionCommand (NewFlagSet ''hello'') initial_state =
      (Returns (Flags hello_version_entry), initial_state)"
    by (simp add: VersionCommand_def Var_def NewFlagSet_def hello_version_entry_def
          initial_state_def)
  have entry: "\<lparr>Cmd = VersionCommand, Name = ''hello'', Desc = ''prints the version'',
      RequiredFlags = [''v''], Flags = Flags hello_version_entry\<rparr> = hello_version_entry"
    by (simp add: hello_version_entry_def)
  have path: "(NewPath :: (test_state, unit) Path)\<lparr>entries :=
      (entries NewPath)(''hello'' \<mapsto> hello_version_entry)\<rparr> =
      \<lparr>entries = [''hello'' \<mapsto> hello_version_entry]\<rparr>"
    by (simp add: NewPath_def)
  from Add_last_write_wins [OF first flags, where ?d2.0 = "''prints the version''"
      and ?r2.0 = "[''v'']" and ord = ascending and rest = "[''-v'', ''world'']"
      and w' = initial_state]
  show ?thesis
    by (simp add: first flags entry path Let_def Run_hello_version)
qed

section \<open>Run as a function of the registry and the arguments\<close>

text \<open>
  C6 does not hold as it is stated.  \<open>Run("version", "-v")\<close> leaves the contents of
  the README's registry as they are, and yet \<open>Run("version")\<close> fails before that
  call and passes after it (in the state which that call leaves, and in the initial
  one too).  On the registry with two required flags the error of \<open>Run("hello")\<close>
  depends on the order of the map iteration.
\<close>

theorem Run_depends_on_earlier_calls:
  "Run ascending readme_path [''version'', ''-v''] initial_state =
     (Returns (Some version_entry_set, None), readme_path_v,
      initial_state\<lparr>flagVerbose := True\<rparr>) \<and>
   registry_contents readme_path_v = registry_contents readme_path \<and>
   returned_error (Run ascending readme_path [''version''] initial_state) =
     Returns (Some (RequiredFlagsNotSet [''v''])) \<and>
   returned_error (Run ascending readme_path_v [''version'']
     (initial_state\<lparr>flagVerbose := True\<rparr>)) = Returns None \<and>
   returned_error (Run ascending readme_path_v [''version''] initial_state) = Returns None \<and>
   returned_error (Run ascending two_flags_path [''hello''] initial_state) =
     Returns (Some (RequiredFlagsNotSet [''a'', ''b''])) \<and>
   returned_error (Run descending two_flags_path [''hello''] initial_state) =
     Returns (Some (RequiredFlagsNotSet [''b'', ''a'']))"
  by (simp add: Run_version_fresh readme_path_v_eq Run_version_stale Run_version_v
        Run_two_flags_ascending Run_two_flags_descending)
     (simp add: registry_contents_def readme_path_eq version_entry_set_def fun_eq_iff)

text \<open>
  C6, in the form that holds.  Two calls of \<open>Run\<close> with the same arguments, in the
  same state of the commands, on registries that are both empty or both not and
  have the same entry, with its flag set in the same state, under \<open>args[0]\<close>, return
  the same entry and the same error but for the order of the names of missing flags,
  and leave the commands and that entry in the same state.  The other entries have
  no influence.
\<close>

theorem Run_determined_by_matched_entry:
  assumes "(dom (entries p1) = {}) = (dom (entries p2) = {})"
    and "args \<noteq> [] \<Longrightarrow> entries p1 (hd args) = entries p2 (hd args)"
    and "\<And>S. finite S \<Longrightarrow> set (ord1 S) = S \<and> distinct (ord1 S)"
    and "\<And>S. finite S \<Longrightarrow> set (ord2 S) = S \<and> distinct (ord2 S)"
  shows "same_outcome (fst (Run ord1 p1 args w)) (fst (Run ord2 p2 args w)) \<and>
         snd (snd (Run ord1 p1 args w)) = snd (snd (Run ord2 p2 args w)) \<and>
         (args \<noteq> [] \<longrightarrow>
            entries (fst (snd (Run ord1 p1 args w))) (hd args) =
            entries (fst (snd (Run ord2 p2 args w))) (hd args))"
proof (cases args)
  case Nil
  then show ?thesis by (simp add: Run_def same_up_to_order_refl)
next
  case (Cons name rest)
  with assms(2) have same: "entries p1 name = entries p2 name"
    by simp
  show ?thesis
  proof (cases "entries p1 name")
    case None
    with same have "entries p2 name = None" by simp
    with None assms(1) Cons show ?thesis
      by (simp add: Run_def same_up_to_order_refl)
  next
    case (Some cont)
    with same have entry2: "entries p2 name = Some cont" by simp
    obtain e fs w1 where parsed:
      "(if rest \<noteq> [] then Parse (Flags cont) rest w else (None, Flags cont, w)) = (e, fs, w1)"
      by (metis prod.exhaust)
    obtain r w2 where ran: "cmd_Run (Cmd cont) (fs_args fs) w1 = (r, w2)"
      by (metis prod.exhaust)
    have "finite (set (RequiredFlags cont) - actual fs)"
      by simp
    with assms(3,4)
    have "mset (ord1 (set (RequiredFlags cont) - actual fs)) =
          mset (ord2 (set (RequiredFlags cont) - actual fs))"
      by (simp add: set_eq_iff_mset_eq_distinct [symmetric])
    then have missing:
      "same_up_to_order
         (Some (RequiredFlagsNotSet (ord1 (set (RequiredFlags cont) - actual fs))))
         (Some (RequiredFlagsNotSet (ord2 (set (RequiredFlags cont) - actual fs))))"
      by (rule same_up_to_order_missing)
    show ?thesis
      unfolding Cons Run_Some [OF Some parsed] Run_Some [OF entry2 parsed] ran
      using missing by (cases e; cases r) (auto simp: same_up_to_order_refl)
  qed
qed

theorem Run_determined_by_matched_entry_witness:
  "(dom (entries two_flags_path) = {}) = (dom (entries two_flags_version_path) = {}) \<and>
   entries two_flags_path (hd [''hello'']) = entries two_flags_version_path (hd [''hello'']) \<and>
   entries two_flags_path ''version'' = None \<and>
   entries two_flags_version_path ''version'' = Some version_entry \<and>
   ascending {''b'', ''a''} = [''a'', ''b''] \<and> descending {''b'', ''a''} = [''b'', ''a''] \<and>
   fst (Run ascending two_flags_path [''hello''] initial_state) =
     Returns (Some two_flags_entry, Some (RequiredFlagsNotSet [''a'', ''b''])) \<and>
   fst (Run descending two_flags_version_path [''hello''] initial_state) =
     Returns (Some two_flags_entry, Some (RequiredFlagsNotSet [''b'', ''a''])) \<and>
   same_outcome (fst (Run ascending two_flags_path [''hello''] initial_state))
     (fst (Run descending two_flags_version_path [''hello''] initial_state))"
proof -
  have orders: "ascending {''b'', ''a''} = [''a'', ''b'']" "descending {''b'', ''a''} = [''b'', ''a'']"
    by (simp_all add: ascending_def descending_def less_eq_char_def)
  have entries: "entries two_flags_path ''hello'' = entries two_flags_version_path ''hello''"
    "entries two_flags_path ''version'' = None"
    "entries two_flags_version_path ''version'' = Some version_entry"
    "dom (entries two_flags_path) \<noteq> {}" "dom (entries two_flags_version_path) \<noteq> {}"
    by (simp_all add: two_flags_path_eq two_flags_version_path_eq)
  from Run_determined_by_matched_entry [where ?p1.0 = two_flags_path
      and ?p2.0 = two_flags_version_path and args = "[''hello'']" and ?ord1.0 = ascending
      and ?ord2.0 = descending and w = initial_state]
  have "same_outcome (fst (Run ascending two_flags_path [''hello''] initial_state))
     (fst (Run descending two_flags_version_path [''hello''] initial_state))"
    using entries range_orders by simp
  with orders entries show ?thesis
    by (simp add: Run_two_flags_ascending Run_two_flags_version_descending)
qed

end
